theory Spec2Isabelle
  imports Main "HOL-Library.Sublist"
begin

section \<open>Values read from the files\<close>

text \<open>
  The validator works on what \<^verbatim>\<open>json.loads\<close> returns: \<^verbatim>\<open>None\<close>, booleans,
  integers, floats, strings, lists and dicts with string keys. A float is kept as the text
  Python prints for it (\<^verbatim>\<open>1.0\<close>, \<^verbatim>\<open>-0.0\<close>, \<^verbatim>\<open>nan\<close>); a
  dict is kept as the list of its items, keys distinct, in insertion order.
\<close>

datatype json =
    JNull
  | JBool bool
  | JInt int
  | JFloat string
  | JStr string
  | JArr "json list"
  | JObj "(string \<times> json) list"

subsection \<open>Python's \<^verbatim>\<open>str\<close> on these values\<close>

fun join_str :: "string \<Rightarrow> string list \<Rightarrow> string" where
  "join_str sep [] = []"
| "join_str sep [x] = x"
| "join_str sep (x # y # ys) = x @ sep @ join_str sep (y # ys)"

definition digit_char :: "nat \<Rightarrow> char" where
  "digit_char n = ''0123456789abcdef'' ! n"

function str_nat :: "nat \<Rightarrow> string" where
  "str_nat n = (if n < 10 then [digit_char n] else str_nat (n div 10) @ [digit_char (n mod 10)])"
  by pat_completeness auto
termination
  by (relation "measure (\<lambda>n. n)") auto

declare str_nat.simps [simp del]

definition str_int :: "int \<Rightarrow> string" where
  "str_int i = (if i < 0 then ''-'' @ str_nat (nat (- i)) else str_nat (nat i))"

text \<open>
  \<^verbatim>\<open>repr\<close> of a string: single quotes, unless the string holds a single quote and no
  double quote; the quote and the backslash are escaped, tab, newline and carriage return
  are written \<^verbatim>\<open>\t \n \r\<close>, and a character that is not printable as
  \<^verbatim>\<open>\xNN\<close>. Characters are code points below 256.
\<close>

definition repr_char :: "char \<Rightarrow> char \<Rightarrow> string" where
  "repr_char q c =
     (let n = (of_char c :: nat) in
      if c = q \<or> c = CHR 0x5C then [CHR 0x5C, c]
      else if n = 9 then [CHR 0x5C, CHR ''t'']
      else if n = 10 then [CHR 0x5C, CHR ''n'']
      else if n = 13 then [CHR 0x5C, CHR ''r'']
      else if n < 32 \<or> (127 \<le> n \<and> n \<le> 160) \<or> n = 173
        then [CHR 0x5C, CHR ''x'', digit_char (n div 16), digit_char (n mod 16)]
      else [c])"

definition repr_str :: "string \<Rightarrow> string" where
  "repr_str s =
     (let q = (if CHR 0x27 \<in> set s \<and> CHR 0x22 \<notin> set s then CHR 0x22 else CHR 0x27)
      in [q] @ concat (map (repr_char q) s) @ [q])"

primrec py_repr :: "json \<Rightarrow> string" where
  "py_repr JNull = ''None''"
| "py_repr (JBool b) = (if b then ''True'' else ''False'')"
| "py_repr (JInt i) = str_int i"
| "py_repr (JFloat s) = s"
| "py_repr (JStr s) = repr_str s"
| "py_repr (JArr xs) = ''['' @ join_str '', '' (map py_repr xs) @ '']''"
| "py_repr (JObj kvs) =
     ''{'' @ join_str '', ''
        (map (\<lambda>(k, r). repr_str k @ '': '' @ r) (map (map_prod id py_repr) kvs)) @ ''}''"

definition py_str :: "json \<Rightarrow> string" where
  "py_str v = (case v of JStr s \<Rightarrow> s | _ \<Rightarrow> py_repr v)"

text \<open>Truth value of a Python object, as \<^verbatim>\<open>x or {}\<close> tests it.\<close>

definition truthy :: "json \<Rightarrow> bool" where
  "truthy v =
     (case v of
        JNull \<Rightarrow> False
      | JBool b \<Rightarrow> b
      | JInt i \<Rightarrow> i \<noteq> 0
      | JFloat s \<Rightarrow> s \<noteq> ''0.0'' \<and> s \<noteq> ''-0.0''
      | JStr s \<Rightarrow> s \<noteq> []
      | JArr xs \<Rightarrow> xs \<noteq> []
      | JObj kvs \<Rightarrow> kvs \<noteq> [])"

section \<open>Exceptions\<close>

text \<open>
  The exceptions the validator can meet, each with the text \<^verbatim>\<open>str(e)\<close> gives.
  \<^verbatim>\<open>ValueError\<close> stands for \<^verbatim>\<open>json.JSONDecodeError\<close> and
  \<^verbatim>\<open>UnicodeDecodeError\<close>, both subclasses of it.
\<close>

datatype exn =
    FileNotFoundError string
  | IsADirectoryError string
  | ValueError string
  | AttributeError string

fun exn_str :: "exn \<Rightarrow> string" where
  "exn_str (FileNotFoundError m) = m"
| "exn_str (IsADirectoryError m) = m"
| "exn_str (ValueError m) = m"
| "exn_str (AttributeError m) = m"

definition type_name :: "json \<Rightarrow> string" where
  "type_name v =
     (case v of
        JNull \<Rightarrow> ''NoneType''
      | JBool b \<Rightarrow> ''bool''
      | JInt i \<Rightarrow> ''int''
      | JFloat s \<Rightarrow> ''float''
      | JStr s \<Rightarrow> ''str''
      | JArr xs \<Rightarrow> ''list''
      | JObj kvs \<Rightarrow> ''dict'')"

text \<open>
  \<^verbatim>\<open>v.get(key, default)\<close>: a lookup with a default on a dict, an
  \<^verbatim>\<open>AttributeError\<close> on anything else, since no other value read from JSON has a
  \<^verbatim>\<open>get\<close> method.
\<close>

definition py_get :: "json \<Rightarrow> string \<Rightarrow> json \<Rightarrow> exn + json" where
  "py_get v key dflt =
     (case v of
        JObj kvs \<Rightarrow> Inr (case map_of kvs key of None \<Rightarrow> dflt | Some x \<Rightarrow> x)
      | _ \<Rightarrow> Inl (AttributeError
                 ([CHR 0x27] @ type_name v @ [CHR 0x27] @ '' object has no attribute 'get''
                  @ [CHR 0x27])))"

section \<open>The file system\<close>

text \<open>
  A path is the list of its components below the root, already absolute and resolved. An
  entry is a directory or a regular file; a file is given by what
  \<^verbatim>\<open>read_text\<close> followed by \<^verbatim>\<open>json.loads\<close> yields on it: the parsed
  value, or the text of the exception that one of the two raises.
\<close>

type_synonym path = "string list"

datatype node = Dir | File "string + json"

type_synonym fs = "path \<Rightarrow> node option"

definition path_str :: "path \<Rightarrow> string" where
  "path_str p = (if p = [] then ''/'' else concat (map (\<lambda>c. ''/'' @ c) p))"

definition path_exists :: "fs \<Rightarrow> path \<Rightarrow> bool" where
  "path_exists fs p = (fs p \<noteq> None)"

definition is_dir :: "fs \<Rightarrow> path \<Rightarrow> bool" where
  "is_dir fs p = (fs p = Some Dir)"

definition read_json :: "fs \<Rightarrow> path \<Rightarrow> exn + json" where
  "read_json fs p =
     (case fs p of
        None \<Rightarrow> Inl (FileNotFoundError
                  (''[Errno 2] No such file or directory: '' @ repr_str (path_str p)))
      | Some Dir \<Rightarrow> Inl (IsADirectoryError
                  (''[Errno 21] Is a directory: '' @ repr_str (path_str p)))
      | Some (File (Inl m)) \<Rightarrow> Inl (ValueError m)
      | Some (File (Inr v)) \<Rightarrow> Inr v)"

section \<open>The validator\<close>

record ArtifactBundle =
  intent :: json
  instructions :: json
  diff :: json

text \<open>
  Every function that prints returns the lines it printed beside its value. No function
  of the validator prints and then raises, so a raised exception carries no output.
\<close>

definition err :: "string \<Rightarrow> bool \<times> string list" where
  "err message = (False, [message])"

definition ok :: "string \<Rightarrow> bool \<times> string list" where
  "ok message = (True, [message])"

function find_project_root :: "fs \<Rightarrow> path \<Rightarrow> path option" where
  "find_project_root fs cur =
     (if path_exists fs (cur @ [''chimera.yaml'']) then Some cur
      else if cur = [] then None
      else find_project_root fs (butlast cur))"
  by pat_completeness auto
termination
  by (relation "measure (\<lambda>(fs, cur). length cur)") auto

declare find_project_root.simps [simp del]

definition load_yaml_json :: "fs \<Rightarrow> path \<Rightarrow> exn + json" where
  "load_yaml_json fs p = read_json fs p"

definition load_json :: "fs \<Rightarrow> path \<Rightarrow> exn + json" where
  "load_json fs p = read_json fs p"

definition load_artifacts :: "fs \<Rightarrow> path \<Rightarrow> exn + ArtifactBundle" where
  "load_artifacts fs run_dir =
     (let intent_path = run_dir @ [''intent.json''];
          instr_path = run_dir @ [''instructions.json''];
          diff_path = run_dir @ [''diff.json''];
          missing = map last (filter (\<lambda>p. \<not> path_exists fs p)
                                      [intent_path, instr_path, diff_path])
      in if missing \<noteq> []
         then Inl (FileNotFoundError
                 (''Missing artifact file(s): '' @ join_str '', '' missing))
         else (case load_json fs intent_path of
                 Inl e \<Rightarrow> Inl e
               | Inr i \<Rightarrow>
                 (case load_json fs instr_path of
                    Inl e \<Rightarrow> Inl e
                  | Inr n \<Rightarrow>
                    (case load_json fs diff_path of
                       Inl e \<Rightarrow> Inl e
                     | Inr d \<Rightarrow>
                       Inr \<lparr>intent = i, instructions = n, diff = d\<rparr>))))"

definition schema_gate :: "ArtifactBundle \<Rightarrow> bool" where
  "schema_gate artifacts = True"

definition check_run_id_consistency :: "ArtifactBundle \<Rightarrow> exn + bool \<times> string list" where
  "check_run_id_consistency artifacts =
     (case py_get (intent artifacts) ''run_id'' (JStr []) of
        Inl e \<Rightarrow> Inl e
      | Inr v1 \<Rightarrow>
     (case py_get (instructions artifacts) ''run_id'' (JStr []) of
        Inl e \<Rightarrow> Inl e
      | Inr v2 \<Rightarrow>
     (case py_get (diff artifacts) ''run_id'' (JStr []) of
        Inl e \<Rightarrow> Inl e
      | Inr v3 \<Rightarrow>
        (let rid_intent = py_str v1; rid_instr = py_str v2; rid_diff = py_str v3 in
         if \<not> (rid_intent \<noteq> [] \<and> rid_instr \<noteq> [] \<and> rid_diff \<noteq> [])
         then Inr (err ''Missing run_id in one or more artifacts (files: intent.json, instructions.json, diff.json).'')
         else if \<not> (rid_intent = rid_instr \<and> rid_instr = rid_diff)
         then Inr (err (''Run ID mismatch across artifacts: intent=''
                        @ [CHR 0x27] @ rid_intent @ [CHR 0x27] @ '', instructions=''
                        @ [CHR 0x27] @ rid_instr @ [CHR 0x27] @ '', diff=''
                        @ [CHR 0x27] @ rid_diff @ [CHR 0x27] @ ''.''))
         else Inr (True, [])))))"

definition ensure_list_of_strings :: "json \<Rightarrow> string list" where
  "ensure_list_of_strings v =
     (case v of
        JNull \<Rightarrow> []
      | JArr xs \<Rightarrow> map py_str xs
      | _ \<Rightarrow> [py_str v])"

text \<open>
  The expression \<^verbatim>\<open>str(doc.get("author", {}).get(field, ""))\<close>, which
  \<^verbatim>\<open>validate_run\<close> writes out four times.
\<close>

definition author_field :: "json \<Rightarrow> string \<Rightarrow> exn + string" where
  "author_field doc field =
     (case py_get doc ''author'' (JObj []) of
        Inl e \<Rightarrow> Inl e
      | Inr author \<Rightarrow>
        (case py_get author field (JStr []) of
           Inl e \<Rightarrow> Inl e
         | Inr v \<Rightarrow> Inr (py_str v)))"

definition validate_run :: "fs \<Rightarrow> path \<Rightarrow> exn + bool \<times> string list" where
  "validate_run fs run_dir =
     (if \<not> path_exists fs run_dir \<or> \<not> is_dir fs run_dir
      then Inr (err (''Run directory does not exist or is not a directory: ''
                     @ path_str run_dir))
      else
     (case find_project_root fs run_dir of
        None \<Rightarrow> Inr (err ''Could not locate project root containing 'chimera.yaml'.'')
      | Some project_root \<Rightarrow>
     (case load_yaml_json fs (project_root @ [''chimera.yaml'']) of
        Inl e \<Rightarrow> Inr (err (''Failed to load chimera.yaml: '' @ exn_str e))
      | Inr chimera_cfg \<Rightarrow>
     (case py_get chimera_cfg ''version'' (JStr []) of
        Inl e \<Rightarrow> Inl e
      | Inr ver \<Rightarrow>
     (let version = py_str ver in
      if version \<noteq> ''1.0''
      then Inr (err (''Unsupported chimera.yaml version '' @ [CHR 0x27] @ version
                     @ [CHR 0x27] @ ''. Expected '1.0'.''))
      else
     (case py_get chimera_cfg ''roles'' JNull of
        Inl e \<Rightarrow> Inl e
      | Inr r \<Rightarrow>
     (let roles = (if truthy r then r else JObj []) in
      case py_get roles ''TRUNK'' JNull of
        Inl e \<Rightarrow> Inl e
      | Inr t \<Rightarrow>
     (let trunk_roles = set (ensure_list_of_strings t) in
      case py_get roles ''BRANCH'' JNull of
        Inl e \<Rightarrow> Inl e
      | Inr b \<Rightarrow>
     (let branch_roles = set (ensure_list_of_strings b) in
      case load_artifacts fs run_dir of
        Inl (FileNotFoundError m) \<Rightarrow> Inr (err m)
      | Inl e \<Rightarrow> Inr (err (''Failed to load artifacts: '' @ exn_str e))
      | Inr artifacts \<Rightarrow>
     (if \<not> schema_gate artifacts then Inr (False, [])
      else
     (case check_run_id_consistency artifacts of
        Inl e \<Rightarrow> Inl e
      | Inr (consistent, printed) \<Rightarrow>
     (if \<not> consistent then Inr (False, printed)
      else
     (case author_field (intent artifacts) ''actor'' of
        Inl e \<Rightarrow> Inl e
      | Inr intent_author \<Rightarrow>
     (case author_field (intent artifacts) ''role'' of
        Inl e \<Rightarrow> Inl e
      | Inr intent_role \<Rightarrow>
     (if intent_role \<noteq> ''TRUNK''
      then Inr (err ''Intent author role must be TRUNK (file: intent.json, field: author.role).'')
      else if intent_author \<notin> trunk_roles
      then Inr (err ''Intent author is not a member of roles.TRUNK (file: intent.json, field: author.actor).'')
      else
     (case author_field (instructions artifacts) ''actor'' of
        Inl e \<Rightarrow> Inl e
      | Inr instr_author \<Rightarrow>
     (case author_field (diff artifacts) ''actor'' of
        Inl e \<Rightarrow> Inl e
      | Inr diff_author \<Rightarrow>
     (if instr_author \<notin> branch_roles
      then Inr (err ''Instructions author is not a member of roles.BRANCH (file: instructions.json, field: author.actor).'')
      else if diff_author \<notin> branch_roles
      then Inr (err ''Diff author is not a member of roles.BRANCH (file: diff.json, field: author.actor).'')
      else Inr (ok ''Artifacts validated successfully.'')))))))))))))))))))"

section \<open>The values the validator computes on its way\<close>

text \<open>
  Names for the intermediate values of \<^verbatim>\<open>validate_run\<close>, each the source
  expression it stands for. The configuration that is discovered: the parsed
  \<^verbatim>\<open>chimera.yaml\<close> of the nearest ancestor that has one.
\<close>

definition discovered_config :: "fs \<Rightarrow> path \<Rightarrow> json option" where
  "discovered_config fs run_dir =
     (case find_project_root fs run_dir of
        None \<Rightarrow> None
      | Some project_root \<Rightarrow>
        (case load_yaml_json fs (project_root @ [''chimera.yaml'']) of
           Inl e \<Rightarrow> None
         | Inr chimera_cfg \<Rightarrow> Some chimera_cfg))"

text \<open>\<^verbatim>\<open>str(chimera_cfg.get("version", ""))\<close>\<close>

definition config_version :: "json \<Rightarrow> exn + string" where
  "config_version chimera_cfg =
     (case py_get chimera_cfg ''version'' (JStr []) of
        Inl e \<Rightarrow> Inl e
      | Inr ver \<Rightarrow> Inr (py_str ver))"

text \<open>
  \<^verbatim>\<open>set(_ensure_list_of_strings((chimera_cfg.get("roles") or {}).get(name)))\<close>
\<close>

definition role_set :: "json \<Rightarrow> string \<Rightarrow> exn + string set" where
  "role_set chimera_cfg name =
     (case py_get chimera_cfg ''roles'' JNull of
        Inl e \<Rightarrow> Inl e
      | Inr r \<Rightarrow>
        (case py_get (if truthy r then r else JObj []) name JNull of
           Inl e \<Rightarrow> Inl e
         | Inr v \<Rightarrow> Inr (set (ensure_list_of_strings v))))"

text \<open>\<^verbatim>\<open>str(doc.get("run_id", ""))\<close>\<close>

definition run_id_of :: "json \<Rightarrow> exn + string" where
  "run_id_of doc =
     (case py_get doc ''run_id'' (JStr []) of
        Inl e \<Rightarrow> Inl e
      | Inr v \<Rightarrow> Inr (py_str v))"

text \<open>\<^verbatim>\<open>isinstance(v, dict)\<close>\<close>

definition is_object :: "json \<Rightarrow> bool" where
  "is_object v = (case v of JObj kvs \<Rightarrow> True | _ \<Rightarrow> False)"

definition artifact_names :: "string list" where
  "artifact_names = [''intent.json'', ''instructions.json'', ''diff.json'']"

subsection \<open>The checks of the consistency stage, in the order the specification lists them\<close>










section \<open>The runs of the test suite\<close>

text \<open>
  The layout \<^verbatim>\<open>_make_run\<close> of the tests builds, with the project directly under
  the root: \<^verbatim>\<open>/project/chimera.yaml\<close> and the three artifacts under
  \<^verbatim>\<open>/project/runs/20251003-refactor-auth-module\<close>. Each of the four files is an
  argument, so that a test can change or delete it.
\<close>

definition valid_chimera_config :: "string \<Rightarrow> string \<Rightarrow> json" where
  "valid_chimera_config trunk_actor branch_actor =
     JObj [(''version'', JStr ''1.0''),
           (''roles'', JObj [(''TRUNK'', JArr [JStr trunk_actor]),
                             (''BRANCH'', JArr [JStr branch_actor])])]"

definition valid_intent :: "json \<Rightarrow> string \<Rightarrow> json" where
  "valid_intent run_id trunk_actor =
     JObj [(''schema_version'', JStr ''1.0''),
           (''run_id'', run_id),
           (''intent'', JStr ''Refactor auth module to improve testability.''),
           (''plan'', JArr [JStr ''Extract interfaces for provider injection'',
                            JStr ''Add unit tests for token verification'']),
           (''author'', JObj [(''actor'', JStr trunk_actor),
                              (''role'', JStr ''TRUNK''),
                              (''timestamp'', JStr ''2025-10-03T12:00:00Z'')])]"

definition valid_instructions :: "json \<Rightarrow> string \<Rightarrow> json" where
  "valid_instructions run_id branch_actor =
     JObj [(''schema_version'', JStr ''1.0''),
           (''run_id'', run_id),
           (''steps'', JArr [JStr ''Modify cli/chimera.py to expose validate entrypoint'',
                             JStr ''Create validators/validate_artifacts.py with validate_run'']),
           (''author'', JObj [(''actor'', JStr branch_actor),
                              (''role'', JStr ''BRANCH''),
                              (''timestamp'', JStr ''2025-10-03T12:05:00Z'')])]"

definition valid_diff :: "json \<Rightarrow> string \<Rightarrow> json" where
  "valid_diff run_id branch_actor =
     JObj [(''schema_version'', JStr ''1.0''),
           (''run_id'', run_id),
           (''changes'', JArr [JObj [(''path'', JStr ''cli/chimera.py''),
                                     (''operation'', JStr ''modify''),
                                     (''summary'', JStr ''Wire up parse_args for 'validate' subcommand'')]]),
           (''author'', JObj [(''actor'', JStr branch_actor),
                              (''role'', JStr ''BRANCH''),
                              (''timestamp'', JStr ''2025-10-03T12:30:00Z'')])]"

definition the_run :: path where
  "the_run = [''project'', ''runs'', ''20251003-refactor-auth-module'']"

definition make_run :: "node option \<Rightarrow> node option \<Rightarrow> node option \<Rightarrow> node option \<Rightarrow> fs" where
  "make_run cfg i n d =
     (\<lambda>p. if p = [] \<or> p = [''project''] \<or> p = [''project'', ''runs''] \<or> p = the_run
             then Some Dir
           else if p = [''project'', ''chimera.yaml''] then cfg
           else if p = the_run @ [''intent.json''] then i
           else if p = the_run @ [''instructions.json''] then n
           else if p = the_run @ [''diff.json''] then d
           else None)"

definition json_file :: "json \<Rightarrow> node option" where
  "json_file v = Some (File (Inr v))"

definition the_id :: json where
  "the_id = JStr ''20251003-refactor-auth-module''"

text \<open>An artifact with nothing but a schema version, a run id and an author.\<close>

definition artifact :: "json \<Rightarrow> json \<Rightarrow> json" where
  "artifact run_id author =
     JObj [(''schema_version'', JStr ''1.0''), (''run_id'', run_id), (''author'', author)]"

text \<open>The configuration of the test on the version: the valid one, with version 2.0.\<close>

definition version_2_config :: json where
  "version_2_config =
     JObj [(''version'', JStr ''2.0''),
           (''roles'', JObj [(''TRUNK'', JArr [JStr ''username:Trunk'']),
                             (''BRANCH'', JArr [JStr ''username:Branch''])])]"

section \<open>Auxiliary facts\<close>

subsection \<open>The stages of the validator\<close>

lemma config_stageE:
  assumes "is_dir fs run_dir"
    and "discovered_config fs run_dir = Some cfg"
    and "config_version cfg = Inr ''1.0''"
    and "role_set cfg ''TRUNK'' = Inr T"
    and "role_set cfg ''BRANCH'' = Inr B"
  obtains root ver r t b where
    "path_exists fs run_dir"
    "find_project_root fs run_dir = Some root"
    "load_yaml_json fs (root @ [''chimera.yaml'']) = Inr cfg"
    "py_get cfg ''version'' (JStr []) = Inr ver" "py_str ver = ''1.0''"
    "py_get cfg ''roles'' JNull = Inr r"
    "py_get (if truthy r then r else JObj []) ''TRUNK'' JNull = Inr t"
    "py_get (if truthy r then r else JObj []) ''BRANCH'' JNull = Inr b"
    "set (ensure_list_of_strings t) = T"
    "set (ensure_list_of_strings b) = B"
proof -
  have e: "path_exists fs run_dir"
    using assms(1) by (simp add: is_dir_def path_exists_def)
  obtain root where r: "find_project_root fs run_dir = Some root"
    "load_yaml_json fs (root @ [''chimera.yaml'']) = Inr cfg"
    using assms(2) by (auto simp: discovered_config_def split: option.splits sum.splits)
  obtain ver where v: "py_get cfg ''version'' (JStr []) = Inr ver" "py_str ver = ''1.0''"
    using assms(3) by (auto simp: config_version_def split: sum.splits)
  obtain r t where t: "py_get cfg ''roles'' JNull = Inr r"
    "py_get (if truthy r then r else JObj []) ''TRUNK'' JNull = Inr t"
    "set (ensure_list_of_strings t) = T"
    using assms(4) by (auto simp: role_set_def split: sum.splits)
  obtain b where b: "py_get (if truthy r then r else JObj []) ''BRANCH'' JNull = Inr b"
    "set (ensure_list_of_strings b) = B"
    using assms(5) t(1) by (auto simp: role_set_def split: sum.splits)
  show thesis using that e r v t b by blast
qed

lemma check_run_id_consistency_eq:
  assumes "run_id_of (intent a) = Inr r1"
    and "run_id_of (instructions a) = Inr r2"
    and "run_id_of (diff a) = Inr r3"
  shows "check_run_id_consistency a =
     Inr (if r1 = [] \<or> r2 = [] \<or> r3 = []
          then err ''Missing run_id in one or more artifacts (files: intent.json, instructions.json, diff.json).''
          else if \<not> (r1 = r2 \<and> r2 = r3)
          then err (''Run ID mismatch across artifacts: intent=''
                        @ [CHR 0x27] @ r1 @ [CHR 0x27] @ '', instructions=''
                        @ [CHR 0x27] @ r2 @ [CHR 0x27] @ '', diff=''
                        @ [CHR 0x27] @ r3 @ [CHR 0x27] @ ''.'')
          else (True, []))"
  using assms
  by (auto simp: check_run_id_consistency_def run_id_of_def Let_def split: sum.splits)

subsection \<open>The runs of the test suite\<close>

lemma make_run_is_dir: "is_dir (make_run c i n d) the_run"
  by (simp add: is_dir_def make_run_def)

lemma make_run_config: "discovered_config (make_run (json_file cfg) i n d) the_run = Some cfg"
  by (simp add: discovered_config_def find_project_root.simps path_exists_def make_run_def
      the_run_def json_file_def load_yaml_json_def read_json_def)

lemma make_run_exists:
  "path_exists (make_run c i n d) (the_run @ [''intent.json'']) = (i \<noteq> None)"
  "path_exists (make_run c i n d) (the_run @ [''instructions.json'']) = (n \<noteq> None)"
  "path_exists (make_run c i n d) (the_run @ [''diff.json'']) = (d \<noteq> None)"
  by (simp_all add: path_exists_def make_run_def the_run_def)

lemma make_run_lookup:
  "make_run c i n d (the_run @ [''intent.json'']) = i"
  "make_run c i n d (the_run @ [''instructions.json'']) = n"
  "make_run c i n d (the_run @ [''diff.json'']) = d"
  by (simp_all add: make_run_def the_run_def)

lemma make_run_artifacts:
  "load_artifacts (make_run c (json_file i) (json_file n) (json_file d)) the_run =
     Inr \<lparr>intent = i, instructions = n, diff = d\<rparr>"
  by (simp add: load_artifacts_def Let_def path_exists_def load_json_def read_json_def
      make_run_lookup json_file_def)

lemma valid_config_values:
  "config_version (valid_chimera_config t b) = Inr ''1.0''"
  "role_set (valid_chimera_config t b) ''TRUNK'' = Inr {t}"
  "role_set (valid_chimera_config t b) ''BRANCH'' = Inr {b}"
  by (simp_all add: config_version_def role_set_def valid_chimera_config_def py_get_def
      py_str_def truthy_def ensure_list_of_strings_def)

lemma valid_artifact_values:
  "run_id_of (valid_intent r a) = Inr (py_str r)"
  "run_id_of (valid_instructions r a) = Inr (py_str r)"
  "run_id_of (valid_diff r a) = Inr (py_str r)"
  "author_field (valid_intent r a) ''role'' = Inr ''TRUNK''"
  "author_field (valid_intent r a) ''actor'' = Inr a"
  "author_field (valid_instructions r a) ''actor'' = Inr a"
  "author_field (valid_diff r a) ''actor'' = Inr a"
  by (simp_all add: run_id_of_def author_field_def valid_intent_def valid_instructions_def
      valid_diff_def py_get_def py_str_def)

lemma py_str_JStr: "py_str (JStr s) = s"
  by (simp add: py_str_def)

lemma the_id_str: "py_str the_id = ''20251003-refactor-auth-module''"
  by (simp add: the_id_def py_str_def)

lemma load_artifacts_objects:
  assumes "fs (run_dir @ [''intent.json'']) = Some (File (Inr i))"
    and "fs (run_dir @ [''instructions.json'']) = Some (File (Inr n))"
    and "fs (run_dir @ [''diff.json'']) = Some (File (Inr d))"
  shows "load_artifacts fs run_dir = Inr \<lparr>intent = i, instructions = n, diff = d\<rparr>"
  using assms
  by (simp add: load_artifacts_def Let_def path_exists_def load_json_def read_json_def)

lemma valid_artifacts_objects:
  "is_object (valid_chimera_config t b)"
  "is_object (valid_intent r a)"
  "is_object (valid_instructions r a)"
  "is_object (valid_diff r a)"
  by (simp_all add: is_object_def valid_chimera_config_def valid_intent_def
      valid_instructions_def valid_diff_def)

lemma json_file_eq: "(json_file v = Some (File (Inr w))) = (v = w)"
  by (auto simp: json_file_def)

lemma sublist_eqI: "ys = ps @ xs @ ss \<Longrightarrow> sublist xs ys"
  by simp

lemma validate_run_after_run_ids:
  assumes "is_dir fs run_dir"
    and "discovered_config fs run_dir = Some cfg"
    and "config_version cfg = Inr ''1.0''"
    and "role_set cfg ''TRUNK'' = Inr T"
    and "role_set cfg ''BRANCH'' = Inr B"
    and "load_artifacts fs run_dir = Inr a"
    and "check_run_id_consistency a = Inr (True, [])"
    and "author_field (intent a) ''role'' = Inr role"
    and "author_field (intent a) ''actor'' = Inr ai"
  shows "validate_run fs run_dir =
     (if role \<noteq> ''TRUNK''
      then Inr (err ''Intent author role must be TRUNK (file: intent.json, field: author.role).'')
      else if ai \<notin> T
      then Inr (err ''Intent author is not a member of roles.TRUNK (file: intent.json, field: author.actor).'')
      else
     (case author_field (instructions a) ''actor'' of
        Inl e \<Rightarrow> Inl e
      | Inr x \<Rightarrow>
     (case author_field (diff a) ''actor'' of
        Inl e \<Rightarrow> Inl e
      | Inr y \<Rightarrow>
     (if x \<notin> B
      then Inr (err ''Instructions author is not a member of roles.BRANCH (file: instructions.json, field: author.actor).'')
      else if y \<notin> B
      then Inr (err ''Diff author is not a member of roles.BRANCH (file: diff.json, field: author.actor).'')
      else Inr (ok ''Artifacts validated successfully.'')))))"
proof -
  from config_stageE [OF assms(1-5)] obtain root ver r t b where c:
    "path_exists fs run_dir"
    "find_project_root fs run_dir = Some root"
    "load_yaml_json fs (root @ [''chimera.yaml'']) = Inr cfg"
    "py_get cfg ''version'' (JStr []) = Inr ver" "py_str ver = ''1.0''"
    "py_get cfg ''roles'' JNull = Inr r"
    "py_get (if truthy r then r else JObj []) ''TRUNK'' JNull = Inr t"
    "py_get (if truthy r then r else JObj []) ''BRANCH'' JNull = Inr b"
    "set (ensure_list_of_strings t) = T"
    "set (ensure_list_of_strings b) = B"
    by blast
  show ?thesis
    unfolding validate_run_def
    using assms(1)
    by (simp add: c assms(6-9) Let_def schema_gate_def)
qed

lemma artifact_values:
  "run_id_of (artifact r au) = Inr (py_str r)"
  "author_field (artifact r (JObj kvs)) f =
     Inr (py_str (case map_of kvs f of None \<Rightarrow> JStr [] | Some x \<Rightarrow> x))"
  "is_object (artifact r au)"
  by (simp_all add: run_id_of_def author_field_def artifact_def py_get_def is_object_def)

lemma run_ids_consistent:
  assumes "run_id_of (intent a) = Inr r" and "run_id_of (instructions a) = Inr r"
    and "run_id_of (diff a) = Inr r" and "r \<noteq> []"
  shows "check_run_id_consistency a = Inr (True, [])"
  using check_run_id_consistency_eq [OF assms(1-3)] assms(4) by simp

lemma missing_message_names:
  fixes b1 b2 b3 :: bool
  defines "m \<equiv> ''Missing artifact file(s): '' @ join_str '', ''
     ((if b1 then [''intent.json''] else []) @ (if b2 then [''instructions.json''] else [])
       @ (if b3 then [''diff.json''] else []))"
  shows "sublist ''intent.json'' m = b1"
    and "sublist ''instructions.json'' m = b2"
    and "sublist ''diff.json'' m = b3"
  unfolding m_def
  by (cases b1; cases b2; cases b3; simp add: sublist_code)+

lemma json_file_some: "json_file v \<noteq> None"
  by (simp add: json_file_def)

lemma absent_names:
  "filter (\<lambda>name. \<not> path_exists fs (run_dir @ [name])) artifact_names =
     (if \<not> path_exists fs (run_dir @ [''intent.json'']) then [''intent.json''] else [])
     @ (if \<not> path_exists fs (run_dir @ [''instructions.json'']) then [''instructions.json''] else [])
     @ (if \<not> path_exists fs (run_dir @ [''diff.json'']) then [''diff.json''] else [])"
  by (simp add: artifact_names_def)

lemma load_artifacts_missing:
  assumes "\<exists>name \<in> set artifact_names. \<not> path_exists fs (run_dir @ [name])"
  shows "load_artifacts fs run_dir =
     Inl (FileNotFoundError (''Missing artifact file(s): '' @ join_str '', ''
       (filter (\<lambda>name. \<not> path_exists fs (run_dir @ [name])) artifact_names)))"
proof -
  have e: "map last (filter (\<lambda>p. \<not> path_exists fs p)
          [run_dir @ [''intent.json''], run_dir @ [''instructions.json''],
           run_dir @ [''diff.json'']])
        = filter (\<lambda>name. \<not> path_exists fs (run_dir @ [name])) artifact_names"
    by (simp add: artifact_names_def)
  have ne: "filter (\<lambda>name. \<not> path_exists fs (run_dir @ [name])) artifact_names \<noteq> []"
    using assms by (simp add: filter_empty_conv)
  show ?thesis
    unfolding load_artifacts_def Let_def e using ne by simp
qed

lemma find_project_root_cong:
  assumes "\<And>p. fs' (p @ [''chimera.yaml'']) = fs (p @ [''chimera.yaml''])"
  shows "find_project_root fs' cur = find_project_root fs cur"
  using assms
proof (induction fs cur rule: find_project_root.induct)
  case (1 fs cur)
  have e: "path_exists fs' (cur @ [''chimera.yaml'']) = path_exists fs (cur @ [''chimera.yaml''])"
    using "1.prems" by (simp add: path_exists_def)
  show ?case
  proof (cases "path_exists fs (cur @ [''chimera.yaml'']) \<or> cur = []")
    case True
    then show ?thesis
      using e by (auto simp: find_project_root.simps [of fs cur] find_project_root.simps [of fs' cur])
  next
    case False
    then have "find_project_root fs' (butlast cur) = find_project_root fs (butlast cur)"
      using "1.IH" "1.prems" by simp
    then show ?thesis
      using False e
      by (simp add: find_project_root.simps [of fs cur] find_project_root.simps [of fs' cur])
  qed
qed

lemma artifacts_updated:
  fixes fs :: fs and run_dir :: path
  defines "fs' \<equiv> \<lambda>i n d. fs(run_dir @ [''intent.json''] := i,
                              run_dir @ [''instructions.json''] := n,
                              run_dir @ [''diff.json''] := d)"
  shows "is_dir (fs' i n d) run_dir = is_dir fs run_dir"
    and "discovered_config (fs' i n d) run_dir = discovered_config fs run_dir"
proof -
  show "is_dir (fs' i n d) run_dir = is_dir fs run_dir"
    by (simp add: fs'_def is_dir_def)
  have c: "\<And>p. fs' i n d (p @ [''chimera.yaml'']) = fs (p @ [''chimera.yaml''])"
    by (simp add: fs'_def)
  have "find_project_root (fs' i n d) run_dir = find_project_root fs run_dir"
    by (rule find_project_root_cong) (rule c)
  then show "discovered_config (fs' i n d) run_dir = discovered_config fs run_dir"
    by (simp add: discovered_config_def load_yaml_json_def read_json_def c
        split: option.splits)
qed

lemma validate_run_version_gate:
  assumes "is_dir fs run_dir"
    and "discovered_config fs run_dir = Some cfg"
    and "config_version cfg = Inr version"
    and "version \<noteq> ''1.0''"
  shows "validate_run fs run_dir =
     Inr (False, [''Unsupported chimera.yaml version '' @ [CHR 0x27] @ version
                  @ [CHR 0x27] @ ''. Expected '1.0'.''])"
proof -
  have e: "path_exists fs run_dir"
    using assms(1) by (simp add: is_dir_def path_exists_def)
  obtain root where r: "find_project_root fs run_dir = Some root"
    "load_yaml_json fs (root @ [''chimera.yaml'']) = Inr cfg"
    using assms(2) by (auto simp: discovered_config_def split: option.splits sum.splits)
  obtain ver where v: "py_get cfg ''version'' (JStr []) = Inr ver" "py_str ver = version"
    using assms(3) by (auto simp: config_version_def split: sum.splits)
  show ?thesis
    unfolding validate_run_def
    using assms(1,4)
    by (simp add: e r v Let_def err_def)
qed

lemma validate_run_run_id_presence:
  assumes "is_dir fs run_dir"
    and "discovered_config fs run_dir = Some cfg"
    and "config_version cfg = Inr ''1.0''"
    and "role_set cfg ''TRUNK'' = Inr T"
    and "role_set cfg ''BRANCH'' = Inr B"
    and "load_artifacts fs run_dir = Inr a"
    and "run_id_of (intent a) = Inr r1"
    and "run_id_of (instructions a) = Inr r2"
    and "run_id_of (diff a) = Inr r3"
    and "r1 = [] \<or> r2 = [] \<or> r3 = []"
  shows "validate_run fs run_dir =
     Inr (False, [''Missing run_id in one or more artifacts (files: intent.json, instructions.json, diff.json).''])"
proof -
  from config_stageE [OF assms(1-5)] obtain root ver r t b where c:
    "path_exists fs run_dir"
    "find_project_root fs run_dir = Some root"
    "load_yaml_json fs (root @ [''chimera.yaml'']) = Inr cfg"
    "py_get cfg ''version'' (JStr []) = Inr ver" "py_str ver = ''1.0''"
    "py_get cfg ''roles'' JNull = Inr r"
    "py_get (if truthy r then r else JObj []) ''TRUNK'' JNull = Inr t"
    "py_get (if truthy r then r else JObj []) ''BRANCH'' JNull = Inr b"
    "set (ensure_list_of_strings t) = T"
    "set (ensure_list_of_strings b) = B"
    by blast
  have k: "check_run_id_consistency a =
     Inr (False, [''Missing run_id in one or more artifacts (files: intent.json, instructions.json, diff.json).''])"
    using check_run_id_consistency_eq [OF assms(7-9)] assms(10)
    by (auto simp: err_def)
  show ?thesis
    unfolding validate_run_def
    using assms(1)
    by (simp add: c k assms(6) Let_def schema_gate_def)
qed

lemma validate_run_config_not_object:
  assumes "is_dir fs run_dir"
    and "discovered_config fs run_dir = Some cfg"
    and "\<not> is_object cfg"
  shows "validate_run fs run_dir =
     Inl (AttributeError ([CHR 0x27] @ type_name cfg @ [CHR 0x27]
                          @ '' object has no attribute 'get'' @ [CHR 0x27]))"
proof -
  have e: "path_exists fs run_dir"
    using assms(1) by (simp add: is_dir_def path_exists_def)
  obtain root where r: "find_project_root fs run_dir = Some root"
    "load_yaml_json fs (root @ [''chimera.yaml'']) = Inr cfg"
    using assms(2) by (auto simp: discovered_config_def split: option.splits sum.splits)
  have g: "py_get cfg ''version'' (JStr []) =
     Inl (AttributeError ([CHR 0x27] @ type_name cfg @ [CHR 0x27]
                          @ '' object has no attribute 'get'' @ [CHR 0x27]))"
    using assms(3) by (cases cfg) (simp_all add: py_get_def is_object_def)
  show ?thesis
    unfolding validate_run_def
    using assms(1)
    by (simp add: e r g)
qed

lemma validate_run_intent_not_object:
  assumes "is_dir fs run_dir"
    and "discovered_config fs run_dir = Some cfg"
    and "config_version cfg = Inr ''1.0''"
    and "role_set cfg ''TRUNK'' = Inr T"
    and "role_set cfg ''BRANCH'' = Inr B"
    and "load_artifacts fs run_dir = Inr a"
    and "\<not> is_object (intent a)"
  shows "validate_run fs run_dir =
     Inl (AttributeError ([CHR 0x27] @ type_name (intent a) @ [CHR 0x27]
                          @ '' object has no attribute 'get'' @ [CHR 0x27]))"
proof -
  from config_stageE [OF assms(1-5)] obtain root ver r t b where c:
    "path_exists fs run_dir"
    "find_project_root fs run_dir = Some root"
    "load_yaml_json fs (root @ [''chimera.yaml'']) = Inr cfg"
    "py_get cfg ''version'' (JStr []) = Inr ver" "py_str ver = ''1.0''"
    "py_get cfg ''roles'' JNull = Inr r"
    "py_get (if truthy r then r else JObj []) ''TRUNK'' JNull = Inr t"
    "py_get (if truthy r then r else JObj []) ''BRANCH'' JNull = Inr b"
    "set (ensure_list_of_strings t) = T"
    "set (ensure_list_of_strings b) = B"
    by blast
  have g: "py_get (intent a) ''run_id'' (JStr []) =
     Inl (AttributeError ([CHR 0x27] @ type_name (intent a) @ [CHR 0x27]
                          @ '' object has no attribute 'get'' @ [CHR 0x27]))"
    using assms(7) by (cases "intent a") (simp_all add: py_get_def is_object_def)
  have k: "check_run_id_consistency a =
     Inl (AttributeError ([CHR 0x27] @ type_name (intent a) @ [CHR 0x27]
                          @ '' object has no attribute 'get'' @ [CHR 0x27]))"
    by (simp add: check_run_id_consistency_def g)
  show ?thesis
    unfolding validate_run_def
    using assms(1)
    by (simp add: c k assms(6) Let_def schema_gate_def)
qed




lemma object_run_id:
  assumes "is_object doc"
  shows "\<exists>r. run_id_of doc = Inr r"
  using assms by (cases doc) (simp_all add: is_object_def run_id_of_def py_get_def)

lemma validate_run_branch_authors:
  assumes "is_dir fs run_dir"
    and "discovered_config fs run_dir = Some cfg"
    and "config_version cfg = Inr ''1.0''"
    and "role_set cfg ''TRUNK'' = Inr T"
    and "role_set cfg ''BRANCH'' = Inr B"
    and "load_artifacts fs run_dir = Inr a"
    and "check_run_id_consistency a = Inr (True, [])"
    and "author_field (intent a) ''role'' = Inr ''TRUNK''"
    and "author_field (intent a) ''actor'' = Inr ai" and "ai \<in> T"
    and "author_field (instructions a) ''actor'' = Inr an"
    and "author_field (diff a) ''actor'' = Inr ad"
    and "an \<notin> B \<or> ad \<notin> B"
  shows "(let m = (if an \<notin> B
                   then ''Instructions author is not a member of roles.BRANCH (file: instructions.json, field: author.actor).''
                   else ''Diff author is not a member of roles.BRANCH (file: diff.json, field: author.actor).'')
          in validate_run fs run_dir = Inr (False, [m])
             \<and> sublist ''BRANCH'' m \<and> sublist ''member'' m)"
  using validate_run_after_run_ids [OF assms(1-9)] assms(10-13)
  by (auto simp add: Let_def err_def sublist_code)

section \<open>The order of the checks\<close>



section \<open>A valid run is accepted\<close>

text \<open>
  Claim C2. When the run directory is a directory, the discovered configuration has version
  1.0 and role sets \<open>T\<close> and \<open>B\<close>, the three artifact files are present and hold JSON
  objects, their three run ids are one non-empty string, the intent's author role is exactly
  TRUNK, the intent's actor is in \<open>T\<close> and the actors of the instructions and of the diff are
  in \<open>B\<close>, then \<^verbatim>\<open>validate_run\<close> returns true and prints the success line.
\<close>

theorem validate_run_accepts:
  assumes "is_dir fs run_dir"
    and "discovered_config fs run_dir = Some cfg"
    and "config_version cfg = Inr ''1.0''"
    and "role_set cfg ''TRUNK'' = Inr T"
    and "role_set cfg ''BRANCH'' = Inr B"
    and "fs (run_dir @ [''intent.json'']) = Some (File (Inr i))" and "is_object i"
    and "fs (run_dir @ [''instructions.json'']) = Some (File (Inr n))" and "is_object n"
    and "fs (run_dir @ [''diff.json'']) = Some (File (Inr d))" and "is_object d"
    and "run_id_of i = Inr r" and "run_id_of n = Inr r" and "run_id_of d = Inr r"
    and "r \<noteq> []"
    and "author_field i ''role'' = Inr ''TRUNK''"
    and "author_field i ''actor'' = Inr ai" and "ai \<in> T"
    and "author_field n ''actor'' = Inr an" and "an \<in> B"
    and "author_field d ''actor'' = Inr ad" and "ad \<in> B"
  shows "validate_run fs run_dir = Inr (True, [''Artifacts validated successfully.''])"
proof -
  let ?a = "\<lparr>intent = i, instructions = n, diff = d\<rparr>"
  have a: "load_artifacts fs run_dir = Inr ?a"
    by (rule load_artifacts_objects [OF assms(6,8,10)])
  have k: "check_run_id_consistency ?a = Inr (True, [])"
    by (rule run_ids_consistent [where r = r]) (simp_all add: assms)
  have "author_field (intent ?a) ''role'' = Inr ''TRUNK''"
    and "author_field (intent ?a) ''actor'' = Inr ai"
    by (simp_all add: assms)
  from validate_run_after_run_ids [OF assms(1-5) a k this] show ?thesis
    using assms(18,19,20,21,22)
    by (simp add: ok_def)
qed

theorem validate_run_accepts_witness:
  "validate_run
     (make_run (json_file (valid_chimera_config ''username:Trunk'' ''username:Branch''))
        (json_file (valid_intent the_id ''username:Trunk''))
        (json_file (valid_instructions the_id ''username:Branch''))
        (json_file (valid_diff the_id ''username:Branch'')))
     the_run
   = Inr (True, [''Artifacts validated successfully.''])"
  by (rule validate_run_accepts [where cfg = "valid_chimera_config ''username:Trunk'' ''username:Branch''"
        and T = "{''username:Trunk''}" and B = "{''username:Branch''}"
        and i = "valid_intent the_id ''username:Trunk''"
        and n = "valid_instructions the_id ''username:Branch''"
        and d = "valid_diff the_id ''username:Branch''"
        and r = "''20251003-refactor-auth-module''"
        and ai = "''username:Trunk''" and an = "''username:Branch''"
        and ad = "''username:Branch''"])
     (simp_all add: make_run_is_dir make_run_config valid_config_values make_run_lookup
        json_file_eq valid_artifact_values valid_artifacts_objects the_id_str)

section \<open>The author of the intent\<close>

text \<open>
  Claim C3. On a run that passes the run-id checks: when the intent's author role is not
  exactly the string TRUNK, \<^verbatim>\<open>validate_run\<close> returns false and its diagnostic
  names the file \<^verbatim>\<open>intent.json\<close> and the field \<^verbatim>\<open>author.role\<close>;
  otherwise, when the intent's actor is not in the configured TRUNK set \<open>T\<close>, it returns
  false and its diagnostic contains TRUNK and the word member.
\<close>

theorem validate_run_intent_author:
  assumes "is_dir fs run_dir"
    and "discovered_config fs run_dir = Some cfg"
    and "config_version cfg = Inr ''1.0''"
    and "role_set cfg ''TRUNK'' = Inr T"
    and "role_set cfg ''BRANCH'' = Inr B"
    and "load_artifacts fs run_dir = Inr a"
    and "check_run_id_consistency a = Inr (True, [])"
    and "author_field (intent a) ''role'' = Inr role"
    and "author_field (intent a) ''actor'' = Inr ai"
  shows "(role \<noteq> ''TRUNK'' \<longrightarrow>
            (let m = ''Intent author role must be TRUNK (file: intent.json, field: author.role).''
             in validate_run fs run_dir = Inr (False, [m])
                \<and> sublist ''intent.json'' m \<and> sublist ''author.role'' m))
       \<and> (role = ''TRUNK'' \<and> ai \<notin> T \<longrightarrow>
            (let m = ''Intent author is not a member of roles.TRUNK (file: intent.json, field: author.actor).''
             in validate_run fs run_dir = Inr (False, [m])
                \<and> sublist ''TRUNK'' m \<and> sublist ''member'' m))"
  using validate_run_after_run_ids [OF assms]
  by (simp add: Let_def err_def sublist_code)

theorem validate_run_intent_author_witness:
  "validate_run
     (make_run (json_file (valid_chimera_config ''username:Trunk'' ''username:Branch''))
        (json_file (artifact the_id (JObj [(''actor'', JStr ''username:Trunk''),
                                            (''role'', JStr ''BRANCH'')])))
        (json_file (valid_instructions the_id ''username:Branch''))
        (json_file (valid_diff the_id ''username:Branch'')))
     the_run
   = Inr (False, [''Intent author role must be TRUNK (file: intent.json, field: author.role).''])
   \<and> validate_run
     (make_run (json_file (valid_chimera_config ''username:Trunk'' ''username:Branch''))
        (json_file (valid_intent the_id ''username:NotListed''))
        (json_file (valid_instructions the_id ''username:Branch''))
        (json_file (valid_diff the_id ''username:Branch'')))
     the_run
   = Inr (False, [''Intent author is not a member of roles.TRUNK (file: intent.json, field: author.actor).''])"
proof -
  let ?cfg = "valid_chimera_config ''username:Trunk'' ''username:Branch''"
  let ?i1 = "artifact the_id (JObj [(''actor'', JStr ''username:Trunk''),
                                     (''role'', JStr ''BRANCH'')])"
  let ?i2 = "valid_intent the_id ''username:NotListed''"
  let ?n = "valid_instructions the_id ''username:Branch''"
  let ?d = "valid_diff the_id ''username:Branch''"
  have k1: "check_run_id_consistency \<lparr>intent = ?i1, instructions = ?n, diff = ?d\<rparr> = Inr (True, [])"
    by (rule run_ids_consistent [where r = "''20251003-refactor-auth-module''"])
       (simp_all add: artifact_values valid_artifact_values the_id_str)
  have k2: "check_run_id_consistency \<lparr>intent = ?i2, instructions = ?n, diff = ?d\<rparr> = Inr (True, [])"
    by (rule run_ids_consistent [where r = "''20251003-refactor-auth-module''"])
       (simp_all add: valid_artifact_values the_id_str)
  have a1: "author_field (intent \<lparr>intent = ?i1, instructions = ?n, diff = ?d\<rparr>) ''role'' = Inr ''BRANCH''"
    "author_field (intent \<lparr>intent = ?i1, instructions = ?n, diff = ?d\<rparr>) ''actor'' = Inr ''username:Trunk''"
    by (simp_all add: artifact_values py_str_JStr)
  have a2: "author_field (intent \<lparr>intent = ?i2, instructions = ?n, diff = ?d\<rparr>) ''role'' = Inr ''TRUNK''"
    "author_field (intent \<lparr>intent = ?i2, instructions = ?n, diff = ?d\<rparr>) ''actor'' = Inr ''username:NotListed''"
    by (simp_all add: valid_artifact_values)
  show ?thesis
    using validate_run_intent_author [OF make_run_is_dir make_run_config valid_config_values
        make_run_artifacts k1 a1]
      validate_run_intent_author [OF make_run_is_dir make_run_config valid_config_values
        make_run_artifacts k2 a2]
    by (simp add: Let_def)
qed

section \<open>The authors of the instructions and of the diff\<close>

text \<open>
  Claim C4 says that on a run that passes every earlier check, an actor of the instructions
  or of the diff outside the configured BRANCH set \<open>B\<close> gives the value false and a
  diagnostic with BRANCH and a membership term. The validator reads both actors before it
  tests either, so it does otherwise when the author of the diff is not an object: with
  the actor of the instructions outside \<open>B\<close>, \<^verbatim>\<open>validate_run\<close> raises the
  exception of that read and prints nothing.
\<close>

theorem validate_run_branch_author_unreadable:
  assumes "is_dir fs run_dir"
    and "discovered_config fs run_dir = Some cfg"
    and "config_version cfg = Inr ''1.0''"
    and "role_set cfg ''TRUNK'' = Inr T"
    and "role_set cfg ''BRANCH'' = Inr B"
    and "load_artifacts fs run_dir = Inr a"
    and "check_run_id_consistency a = Inr (True, [])"
    and "author_field (intent a) ''role'' = Inr ''TRUNK''"
    and "author_field (intent a) ''actor'' = Inr ai" and "ai \<in> T"
    and "author_field (instructions a) ''actor'' = Inr an" and "an \<notin> B"
    and "author_field (diff a) ''actor'' = Inl e"
  shows "validate_run fs run_dir = Inl e"
  using validate_run_after_run_ids [OF assms(1-9)] assms(10-13)
  by simp

theorem validate_run_branch_author_unreadable_witness:
  "validate_run
     (make_run (json_file (valid_chimera_config ''username:Trunk'' ''username:Branch''))
        (json_file (valid_intent the_id ''username:Trunk''))
        (json_file (valid_instructions the_id ''username:Intruder''))
        (json_file (artifact the_id (JArr []))))
     the_run
   = Inl (AttributeError (CHR 0x27 # ''list' object has no attribute 'get'' @ [CHR 0x27]))"
proof -
  let ?i = "valid_intent the_id ''username:Trunk''"
  let ?n = "valid_instructions the_id ''username:Intruder''"
  let ?d = "artifact the_id (JArr [])"
  let ?a = "\<lparr>intent = ?i, instructions = ?n, diff = ?d\<rparr>"
  have k: "check_run_id_consistency ?a = Inr (True, [])"
    by (rule run_ids_consistent [where r = "''20251003-refactor-auth-module''"])
       (simp_all add: valid_artifact_values artifact_values the_id_str)
  have a: "author_field (intent ?a) ''role'' = Inr ''TRUNK''"
    "author_field (intent ?a) ''actor'' = Inr ''username:Trunk''"
    "''username:Trunk'' \<in> {''username:Trunk''}"
    "author_field (instructions ?a) ''actor'' = Inr ''username:Intruder''"
    "''username:Intruder'' \<notin> {''username:Branch''}"
    "author_field (diff ?a) ''actor''
       = Inl (AttributeError (CHR 0x27 # ''list' object has no attribute 'get'' @ [CHR 0x27]))"
    by (simp_all add: valid_artifact_values)
       (simp add: author_field_def artifact_def py_get_def type_name_def)
  show ?thesis
    by (rule validate_run_branch_author_unreadable [OF make_run_is_dir make_run_config
          valid_config_values make_run_artifacts k a])
qed

section \<open>Run ids that differ\<close>

text \<open>
  Claim C5. When the three run ids are all non-empty and not all equal as strings,
  \<^verbatim>\<open>validate_run\<close> returns false and its diagnostic holds each of the three
  values as it is, between quotes after the name of its document, and the words
  \<^verbatim>\<open>Run ID mismatch\<close>.
\<close>

theorem validate_run_run_id_mismatch:
  assumes "is_dir fs run_dir"
    and "discovered_config fs run_dir = Some cfg"
    and "config_version cfg = Inr ''1.0''"
    and "role_set cfg ''TRUNK'' = Inr T"
    and "role_set cfg ''BRANCH'' = Inr B"
    and "load_artifacts fs run_dir = Inr a"
    and "run_id_of (intent a) = Inr r1"
    and "run_id_of (instructions a) = Inr r2"
    and "run_id_of (diff a) = Inr r3"
    and "r1 \<noteq> []" and "r2 \<noteq> []" and "r3 \<noteq> []"
    and "\<not> (r1 = r2 \<and> r2 = r3)"
  shows "(let m = ''Run ID mismatch across artifacts: intent=''
                    @ [CHR 0x27] @ r1 @ [CHR 0x27] @ '', instructions=''
                    @ [CHR 0x27] @ r2 @ [CHR 0x27] @ '', diff=''
                    @ [CHR 0x27] @ r3 @ [CHR 0x27] @ ''.''
          in validate_run fs run_dir = Inr (False, [m])
             \<and> sublist (''intent='' @ [CHR 0x27] @ r1 @ [CHR 0x27]) m
             \<and> sublist (''instructions='' @ [CHR 0x27] @ r2 @ [CHR 0x27]) m
             \<and> sublist (''diff='' @ [CHR 0x27] @ r3 @ [CHR 0x27]) m
             \<and> sublist ''Run ID mismatch'' m)"
proof -
  let ?m = "''Run ID mismatch across artifacts: intent=''
                    @ [CHR 0x27] @ r1 @ [CHR 0x27] @ '', instructions=''
                    @ [CHR 0x27] @ r2 @ [CHR 0x27] @ '', diff=''
                    @ [CHR 0x27] @ r3 @ [CHR 0x27] @ ''.''"
  from config_stageE [OF assms(1-5)] obtain root ver r t b where c:
    "path_exists fs run_dir"
    "find_project_root fs run_dir = Some root"
    "load_yaml_json fs (root @ [''chimera.yaml'']) = Inr cfg"
    "py_get cfg ''version'' (JStr []) = Inr ver" "py_str ver = ''1.0''"
    "py_get cfg ''roles'' JNull = Inr r"
    "py_get (if truthy r then r else JObj []) ''TRUNK'' JNull = Inr t"
    "py_get (if truthy r then r else JObj []) ''BRANCH'' JNull = Inr b"
    "set (ensure_list_of_strings t) = T"
    "set (ensure_list_of_strings b) = B"
    by blast
  have k: "check_run_id_consistency a = Inr (False, [?m])"
    using check_run_id_consistency_eq [OF assms(7-9)] assms(10-13)
    by (auto simp: err_def)
  have v: "validate_run fs run_dir = Inr (False, [?m])"
    unfolding validate_run_def
    using assms(1)
    by (simp add: c k assms(6) Let_def schema_gate_def)
  have s1: "sublist (''intent='' @ [CHR 0x27] @ r1 @ [CHR 0x27]) ?m"
    by (rule sublist_eqI [where ps = "''Run ID mismatch across artifacts: ''"
          and ss = "'', instructions='' @ [CHR 0x27] @ r2 @ [CHR 0x27] @ '', diff=''
                    @ [CHR 0x27] @ r3 @ [CHR 0x27] @ ''.''"]) simp
  have s2: "sublist (''instructions='' @ [CHR 0x27] @ r2 @ [CHR 0x27]) ?m"
    by (rule sublist_eqI [where ps = "''Run ID mismatch across artifacts: intent=''
                    @ [CHR 0x27] @ r1 @ [CHR 0x27] @ '', ''"
          and ss = "'', diff='' @ [CHR 0x27] @ r3 @ [CHR 0x27] @ ''.''"]) simp
  have s3: "sublist (''diff='' @ [CHR 0x27] @ r3 @ [CHR 0x27]) ?m"
    by (rule sublist_eqI [where ps = "''Run ID mismatch across artifacts: intent=''
                    @ [CHR 0x27] @ r1 @ [CHR 0x27] @ '', instructions=''
                    @ [CHR 0x27] @ r2 @ [CHR 0x27] @ '', ''"
          and ss = "''.''"]) simp
  have s4: "sublist ''Run ID mismatch'' ?m"
    by (rule sublist_eqI [where ps = "[]"
          and ss = "'' across artifacts: intent=''
                    @ [CHR 0x27] @ r1 @ [CHR 0x27] @ '', instructions=''
                    @ [CHR 0x27] @ r2 @ [CHR 0x27] @ '', diff=''
                    @ [CHR 0x27] @ r3 @ [CHR 0x27] @ ''.''"]) simp
  show ?thesis
    unfolding Let_def using v s1 s2 s3 s4 by blast
qed

theorem validate_run_run_id_mismatch_witness:
  "validate_run
     (make_run (json_file (valid_chimera_config ''username:Trunk'' ''username:Branch''))
        (json_file (valid_intent the_id ''username:Trunk''))
        (json_file (valid_instructions the_id ''username:Branch''))
        (json_file (valid_diff (JStr ''20251003-wrong-id'') ''username:Branch'')))
     the_run
   = Inr (False, [''Run ID mismatch across artifacts: intent='20251003-refactor-auth-module', instructions='20251003-refactor-auth-module', diff='20251003-wrong-id'.''])"
proof -
  let ?i = "valid_intent the_id ''username:Trunk''"
  let ?n = "valid_instructions the_id ''username:Branch''"
  let ?d = "valid_diff (JStr ''20251003-wrong-id'') ''username:Branch''"
  let ?a = "\<lparr>intent = ?i, instructions = ?n, diff = ?d\<rparr>"
  have r: "run_id_of (intent ?a) = Inr ''20251003-refactor-auth-module''"
    "run_id_of (instructions ?a) = Inr ''20251003-refactor-auth-module''"
    "run_id_of (diff ?a) = Inr ''20251003-wrong-id''"
    "''20251003-refactor-auth-module'' \<noteq> []" "''20251003-refactor-auth-module'' \<noteq> []"
    "''20251003-wrong-id'' \<noteq> []"
    "\<not> (''20251003-refactor-auth-module'' = ''20251003-refactor-auth-module''
        \<and> ''20251003-refactor-auth-module'' = ''20251003-wrong-id'')"
    by (simp_all add: valid_artifact_values the_id_str py_str_JStr)
  show ?thesis
    using validate_run_run_id_mismatch [OF make_run_is_dir make_run_config valid_config_values
        make_run_artifacts r]
    by (simp add: Let_def)
qed

section \<open>Missing artifact files\<close>

text \<open>
  Claim C6. On a run whose configuration stage passes and in which one or more of
  \<^verbatim>\<open>intent.json\<close>, \<^verbatim>\<open>instructions.json\<close> and \<^verbatim>\<open>diff.json\<close> is absent,
  \<^verbatim>\<open>validate_run\<close> returns false, and its diagnostic, the list of the absent file
  names after \<^verbatim>\<open>Missing artifact file(s):\<close>, names each of the three files exactly
  when that file is absent.
\<close>

theorem validate_run_missing_artifacts:
  assumes "is_dir fs run_dir"
    and "discovered_config fs run_dir = Some cfg"
    and "config_version cfg = Inr ''1.0''"
    and "role_set cfg ''TRUNK'' = Inr T"
    and "role_set cfg ''BRANCH'' = Inr B"
    and "\<exists>name \<in> set artifact_names. \<not> path_exists fs (run_dir @ [name])"
  shows "(let absent = filter (\<lambda>name. \<not> path_exists fs (run_dir @ [name])) artifact_names;
              m = ''Missing artifact file(s): '' @ join_str '', '' absent
          in validate_run fs run_dir = Inr (False, [m])
             \<and> (\<forall>name \<in> set artifact_names.
                  sublist name m \<longleftrightarrow> \<not> path_exists fs (run_dir @ [name])))"
proof -
  let ?absent = "filter (\<lambda>name. \<not> path_exists fs (run_dir @ [name])) artifact_names"
  let ?m = "''Missing artifact file(s): '' @ join_str '', '' ?absent"
  from config_stageE [OF assms(1-5)] obtain root ver r t b where c:
    "path_exists fs run_dir"
    "find_project_root fs run_dir = Some root"
    "load_yaml_json fs (root @ [''chimera.yaml'']) = Inr cfg"
    "py_get cfg ''version'' (JStr []) = Inr ver" "py_str ver = ''1.0''"
    "py_get cfg ''roles'' JNull = Inr r"
    "py_get (if truthy r then r else JObj []) ''TRUNK'' JNull = Inr t"
    "py_get (if truthy r then r else JObj []) ''BRANCH'' JNull = Inr b"
    "set (ensure_list_of_strings t) = T"
    "set (ensure_list_of_strings b) = B"
    by blast
  have v: "validate_run fs run_dir = Inr (False, [?m])"
    unfolding validate_run_def
    using assms(1)
    by (simp add: c load_artifacts_missing [OF assms(6)] Let_def err_def del: filter.simps)
  have n1: "sublist ''intent.json'' ?m \<longleftrightarrow> \<not> path_exists fs (run_dir @ [''intent.json''])"
    unfolding absent_names by (rule missing_message_names(1))
  have n2: "sublist ''instructions.json'' ?m
              \<longleftrightarrow> \<not> path_exists fs (run_dir @ [''instructions.json''])"
    unfolding absent_names by (rule missing_message_names(2))
  have n3: "sublist ''diff.json'' ?m \<longleftrightarrow> \<not> path_exists fs (run_dir @ [''diff.json''])"
    unfolding absent_names by (rule missing_message_names(3))
  have n: "\<forall>name \<in> set artifact_names.
             sublist name ?m \<longleftrightarrow> \<not> path_exists fs (run_dir @ [name])"
  proof
    fix name
    assume "name \<in> set artifact_names"
    then have "name = ''intent.json'' \<or> name = ''instructions.json'' \<or> name = ''diff.json''"
      by (simp add: artifact_names_def)
    then show "sublist name ?m \<longleftrightarrow> \<not> path_exists fs (run_dir @ [name])"
      using n1 n2 n3 by blast
  qed
  show ?thesis
    unfolding Let_def using v n by blast
qed

theorem validate_run_missing_artifacts_witness:
  "validate_run
     (make_run (json_file (valid_chimera_config ''username:Trunk'' ''username:Branch''))
        None
        (json_file (valid_instructions the_id ''username:Branch''))
        None)
     the_run
   = Inr (False, [''Missing artifact file(s): intent.json, diff.json''])"
  using validate_run_missing_artifacts [where
      fs = "make_run (json_file (valid_chimera_config ''username:Trunk'' ''username:Branch''))
              None (json_file (valid_instructions the_id ''username:Branch'')) None"
      and run_dir = the_run
      and cfg = "valid_chimera_config ''username:Trunk'' ''username:Branch''"
      and T = "{''username:Trunk''}" and B = "{''username:Branch''}"]
  by (simp add: Let_def make_run_exists artifact_names_def json_file_some make_run_is_dir
      make_run_config valid_config_values)

section \<open>The version of the configuration\<close>

text \<open>
  Claim C7. When the discovered configuration has a version (the value of its
  \<^verbatim>\<open>version\<close> key as a string, the empty string when the key is absent) other than
  1.0, \<^verbatim>\<open>validate_run\<close> returns false with a diagnostic that contains
  \<^verbatim>\<open>version\<close> and \<^verbatim>\<open>1.0\<close>, and it does so before any artifact is looked
  at: the result is the same whatever is put in the place of the three artifact files,
  nothing included.
\<close>

theorem validate_run_version_first:
  assumes "is_dir fs run_dir"
    and "discovered_config fs run_dir = Some cfg"
    and "config_version cfg = Inr version"
    and "version \<noteq> ''1.0''"
  shows "(let m = ''Unsupported chimera.yaml version '' @ [CHR 0x27] @ version
                    @ [CHR 0x27] @ ''. Expected '1.0'.''
          in validate_run fs run_dir = Inr (False, [m])
             \<and> (\<forall>i n d. validate_run
                    (fs(run_dir @ [''intent.json''] := i,
                        run_dir @ [''instructions.json''] := n,
                        run_dir @ [''diff.json''] := d)) run_dir = Inr (False, [m]))
             \<and> sublist ''version'' m \<and> sublist ''1.0'' m)"
proof -
  let ?m = "''Unsupported chimera.yaml version '' @ [CHR 0x27] @ version
              @ [CHR 0x27] @ ''. Expected '1.0'.''"
  have v: "validate_run fs run_dir = Inr (False, [?m])"
    by (rule validate_run_version_gate [OF assms])
  have u: "validate_run (fs(run_dir @ [''intent.json''] := i,
                        run_dir @ [''instructions.json''] := n,
                        run_dir @ [''diff.json''] := d)) run_dir = Inr (False, [?m])" for i n d
    by (rule validate_run_version_gate [where cfg = cfg])
       (simp_all add: artifacts_updated assms)
  have s1: "sublist ''version'' ?m"
    by (rule sublist_eqI [where ps = "''Unsupported chimera.yaml ''"
          and ss = "'' '' @ [CHR 0x27] @ version @ [CHR 0x27] @ ''. Expected '1.0'.''"]) simp
  have s2: "sublist ''1.0'' ?m"
    by (rule sublist_eqI [where ps = "''Unsupported chimera.yaml version '' @ [CHR 0x27]
                                      @ version @ [CHR 0x27] @ ''. Expected '' @ [CHR 0x27]"
          and ss = "[CHR 0x27] @ ''.''"]) simp
  show ?thesis
    unfolding Let_def using v u s1 s2 by blast
qed

theorem validate_run_version_first_witness:
  "validate_run
     (make_run (json_file version_2_config)
        (json_file (valid_intent the_id ''username:Trunk''))
        None
        (Some (File (Inl ''Expecting value: line 1 column 1 (char 0)''))))
     the_run
   = Inr (False, [''Unsupported chimera.yaml version '2.0'. Expected '1.0'.''])"
  using validate_run_version_first [where
      fs = "make_run (json_file version_2_config)
        (json_file (valid_intent the_id ''username:Trunk''))
        None
        (Some (File (Inl ''Expecting value: line 1 column 1 (char 0)'')))"
      and run_dir = the_run and cfg = version_2_config and version = "''2.0''"]
  by (simp add: Let_def make_run_is_dir make_run_config config_version_def version_2_config_def
      py_get_def py_str_JStr)

section \<open>A run id that is missing or empty\<close>

text \<open>
  Claim C8, as the validator has it. On a run that reaches the run-id checks with three
  artifacts that are JSON objects, when the run id of at least one artifact (the value of
  its \<^verbatim>\<open>run_id\<close> key as a string, the empty string when the key is absent) is
  empty, \<^verbatim>\<open>validate_run\<close> returns false and prints one fixed line, which names
  all three artifact files, whichever of them lack a run id.
\<close>

theorem validate_run_missing_run_id:
  assumes "is_dir fs run_dir"
    and "discovered_config fs run_dir = Some cfg"
    and "config_version cfg = Inr ''1.0''"
    and "role_set cfg ''TRUNK'' = Inr T"
    and "role_set cfg ''BRANCH'' = Inr B"
    and "load_artifacts fs run_dir = Inr a"
    and "is_object (intent a)" and "is_object (instructions a)" and "is_object (diff a)"
    and "run_id_of (intent a) = Inr [] \<or> run_id_of (instructions a) = Inr []
         \<or> run_id_of (diff a) = Inr []"
  shows "(let m = ''Missing run_id in one or more artifacts (files: intent.json, instructions.json, diff.json).''
          in validate_run fs run_dir = Inr (False, [m])
             \<and> sublist ''intent.json'' m \<and> sublist ''instructions.json'' m
             \<and> sublist ''diff.json'' m)"
proof -
  obtain r1 r2 r3 where r: "run_id_of (intent a) = Inr r1"
    "run_id_of (instructions a) = Inr r2" "run_id_of (diff a) = Inr r3"
    using object_run_id [OF assms(7)] object_run_id [OF assms(8)] object_run_id [OF assms(9)]
    by blast
  have "r1 = [] \<or> r2 = [] \<or> r3 = []"
    using assms(10) r by auto
  from validate_run_run_id_presence [OF assms(1-6) r this] show ?thesis
    unfolding Let_def by (simp add: sublist_code)
qed

theorem validate_run_missing_run_id_witness:
  "validate_run
     (make_run (json_file (valid_chimera_config ''username:Trunk'' ''username:Branch''))
        (json_file (valid_intent the_id ''username:Trunk''))
        (json_file (valid_instructions (JStr []) ''username:Branch''))
        (json_file (valid_diff the_id ''username:Branch'')))
     the_run
   = Inr (False, [''Missing run_id in one or more artifacts (files: intent.json, instructions.json, diff.json).''])"
proof -
  let ?i = "valid_intent the_id ''username:Trunk''"
  let ?n = "valid_instructions (JStr []) ''username:Branch''"
  let ?d = "valid_diff the_id ''username:Branch''"
  let ?a = "\<lparr>intent = ?i, instructions = ?n, diff = ?d\<rparr>"
  have o: "is_object (intent ?a)" "is_object (instructions ?a)" "is_object (diff ?a)"
    by (simp_all add: valid_artifacts_objects)
  have r: "run_id_of (intent ?a) = Inr [] \<or> run_id_of (instructions ?a) = Inr []
         \<or> run_id_of (diff ?a) = Inr []"
    by (simp add: valid_artifact_values py_str_JStr)
  show ?thesis
    using validate_run_missing_run_id [OF make_run_is_dir make_run_config valid_config_values
        make_run_artifacts o r]
    by (simp add: Let_def)
qed

text \<open>
  Claim C8, as it is stated, asks the diagnostic to name the documents whose run id is
  missing or empty. It does not: in the run below only the diff has an empty run id, the
  intent has the run id of the test suite, and the diagnostic names
  \<^verbatim>\<open>intent.json\<close>.
\<close>

theorem missing_run_id_names_every_file:
  "validate_run
     (make_run (json_file (valid_chimera_config ''username:Trunk'' ''username:Branch''))
        (json_file (valid_intent the_id ''username:Trunk''))
        (json_file (valid_instructions the_id ''username:Branch''))
        (json_file (valid_diff (JStr []) ''username:Branch'')))
     the_run
   = Inr (False, [''Missing run_id in one or more artifacts (files: intent.json, instructions.json, diff.json).''])
   \<and> run_id_of (valid_intent the_id ''username:Trunk'') = Inr ''20251003-refactor-auth-module''
   \<and> run_id_of (valid_diff (JStr []) ''username:Branch'') = Inr []
   \<and> sublist ''intent.json''
        ''Missing run_id in one or more artifacts (files: intent.json, instructions.json, diff.json).''"
proof -
  let ?i = "valid_intent the_id ''username:Trunk''"
  let ?n = "valid_instructions the_id ''username:Branch''"
  let ?d = "valid_diff (JStr []) ''username:Branch''"
  let ?a = "\<lparr>intent = ?i, instructions = ?n, diff = ?d\<rparr>"
  have r: "run_id_of (intent ?a) = Inr ''20251003-refactor-auth-module''"
    "run_id_of (instructions ?a) = Inr ''20251003-refactor-auth-module''"
    "run_id_of (diff ?a) = Inr []"
    "''20251003-refactor-auth-module'' = [] \<or> ''20251003-refactor-auth-module'' = []
       \<or> ([] :: string) = []"
    by (simp_all add: valid_artifact_values the_id_str py_str_JStr)
  show ?thesis
    using validate_run_run_id_presence [OF make_run_is_dir make_run_config valid_config_values
        make_run_artifacts r] r(1,3)
    by (simp add: sublist_code)
qed

section \<open>Files that hold JSON other than an object\<close>

text \<open>
  Claim C9 says that bad input, a configuration or an artifact that is valid JSON but not
  an object included, always ends in the value false and one diagnostic line, never in an
  exception. The validator does otherwise. When the discovered configuration is not an
  object, \<^verbatim>\<open>validate_run\<close> raises the \<^verbatim>\<open>AttributeError\<close> of
  \<^verbatim>\<open>chimera_cfg.get\<close> and prints nothing; when the configuration stage passes and
  the intent is not an object, it raises the one of \<^verbatim>\<open>artifacts.intent.get\<close>.
  Both happen with \<^verbatim>\<open>[]\<close> as the content of the file.
\<close>

theorem validate_run_raises_on_non_object:
  assumes "is_dir fs run_dir"
    and "discovered_config fs run_dir = Some cfg"
  shows "(\<not> is_object cfg \<longrightarrow>
            validate_run fs run_dir =
              Inl (AttributeError ([CHR 0x27] @ type_name cfg @ [CHR 0x27]
                                   @ '' object has no attribute 'get'' @ [CHR 0x27])))
       \<and> (config_version cfg = Inr ''1.0'' \<and> role_set cfg ''TRUNK'' = Inr T
            \<and> role_set cfg ''BRANCH'' = Inr B \<and> load_artifacts fs run_dir = Inr a
            \<and> \<not> is_object (intent a) \<longrightarrow>
            validate_run fs run_dir =
              Inl (AttributeError ([CHR 0x27] @ type_name (intent a) @ [CHR 0x27]
                                   @ '' object has no attribute 'get'' @ [CHR 0x27])))"
  using validate_run_config_not_object [OF assms]
    validate_run_intent_not_object [OF assms]
  by blast

theorem validate_run_raises_on_non_object_witness:
  "validate_run
     (make_run (json_file (JArr []))
        (json_file (valid_intent the_id ''username:Trunk''))
        (json_file (valid_instructions the_id ''username:Branch''))
        (json_file (valid_diff the_id ''username:Branch'')))
     the_run
   = Inl (AttributeError (CHR 0x27 # ''list' object has no attribute 'get'' @ [CHR 0x27]))
   \<and> validate_run
     (make_run (json_file (valid_chimera_config ''username:Trunk'' ''username:Branch''))
        (json_file (JArr []))
        (json_file (valid_instructions the_id ''username:Branch''))
        (json_file (valid_diff the_id ''username:Branch'')))
     the_run
   = Inl (AttributeError (CHR 0x27 # ''list' object has no attribute 'get'' @ [CHR 0x27]))"
proof -
  have n: "\<not> is_object (JArr [])"
    by (simp add: is_object_def)
  have n': "\<not> is_object (intent \<lparr>intent = JArr [],
      instructions = valid_instructions the_id ''username:Branch'',
      diff = valid_diff the_id ''username:Branch''\<rparr>)"
    by (simp add: is_object_def)
  show ?thesis
    using validate_run_raises_on_non_object [where
          fs = "make_run (json_file (JArr []))
                  (json_file (valid_intent the_id ''username:Trunk''))
                  (json_file (valid_instructions the_id ''username:Branch''))
                  (json_file (valid_diff the_id ''username:Branch''))"
          and run_dir = the_run and cfg = "JArr []"]
      validate_run_raises_on_non_object [where
          fs = "make_run (json_file (valid_chimera_config ''username:Trunk'' ''username:Branch''))
                  (json_file (JArr []))
                  (json_file (valid_instructions the_id ''username:Branch''))
                  (json_file (valid_diff the_id ''username:Branch''))"
          and run_dir = the_run
          and cfg = "valid_chimera_config ''username:Trunk'' ''username:Branch''"
          and T = "{''username:Trunk''}" and B = "{''username:Branch''}"
          and a = "\<lparr>intent = JArr [],
            instructions = valid_instructions the_id ''username:Branch'',
            diff = valid_diff the_id ''username:Branch''\<rparr>"]
    by (simp add: n type_name_def valid_config_values make_run_artifacts make_run_is_dir
        make_run_config)
qed

section \<open>Run ids that are null\<close>

text \<open>
  Claim C10. An artifact whose \<^verbatim>\<open>run_id\<close> is JSON null has the run id
  \<^verbatim>\<open>None\<close>, a non-empty string; when all three artifacts have a null run id, the
  presence check and the equality check both pass: \<^verbatim>\<open>_check_run_id_consistency\<close>
  returns true and prints nothing.
\<close>

theorem null_run_ids_pass:
  assumes "intent a = JObj i" and "map_of i ''run_id'' = Some JNull"
    and "instructions a = JObj n" and "map_of n ''run_id'' = Some JNull"
    and "diff a = JObj d" and "map_of d ''run_id'' = Some JNull"
  shows "run_id_of (intent a) = Inr ''None'' \<and> run_id_of (instructions a) = Inr ''None''
       \<and> run_id_of (diff a) = Inr ''None''
       \<and> check_run_id_consistency a = Inr (True, [])"
proof -
  have r: "run_id_of (intent a) = Inr ''None''" "run_id_of (instructions a) = Inr ''None''"
    "run_id_of (diff a) = Inr ''None''"
    using assms by (simp_all add: run_id_of_def py_get_def py_str_def)
  have "''None'' \<noteq> ([] :: string)"
    by simp
  from run_ids_consistent [OF r this] r show ?thesis
    by simp
qed

theorem null_run_ids_pass_witness:
  "check_run_id_consistency
     \<lparr>intent = artifact JNull (JObj [(''actor'', JStr ''username:Trunk''), (''role'', JStr ''TRUNK'')]),
      instructions = artifact JNull (JObj [(''actor'', JStr ''username:Branch'')]),
      diff = artifact JNull (JObj [(''actor'', JStr ''username:Branch'')])\<rparr>
   = Inr (True, [])"
  using null_run_ids_pass [where
      a = "\<lparr>intent = artifact JNull (JObj [(''actor'', JStr ''username:Trunk''), (''role'', JStr ''TRUNK'')]),
      instructions = artifact JNull (JObj [(''actor'', JStr ''username:Branch'')]),
      diff = artifact JNull (JObj [(''actor'', JStr ''username:Branch'')])\<rparr>"
      and i = "[(''schema_version'', JStr ''1.0''), (''run_id'', JNull),
                (''author'', JObj [(''actor'', JStr ''username:Trunk''), (''role'', JStr ''TRUNK'')])]"
      and n = "[(''schema_version'', JStr ''1.0''), (''run_id'', JNull),
                (''author'', JObj [(''actor'', JStr ''username:Branch'')])]"
      and d = "[(''schema_version'', JStr ''1.0''), (''run_id'', JNull),
                (''author'', JObj [(''actor'', JStr ''username:Branch'')])]"]
  by (simp add: artifact_def)

end
